theory Spec2Isabelle
  imports Main "HOL-Library.Word" "HOL-Library.AList"
begin

section \<open>Python values used by \<open>trace_utils.py\<close>\<close>

text \<open>
  A \<open>bytes\<close> object is a list of 8-bit words. A Python \<open>str\<close> that holds decoded body
  text is a list of Unicode code points (\<open>pystr\<close>). URLs, header names and header values
  are of type \<open>string\<close>: 8-bit characters, read as the code points below 256, which is
  what a header line decoded as ASCII or ISO-8859-1 holds. A \<open>dict\<close> of headers is an
  association list in insertion order; storing under a key that is already there
  replaces the value in place (\<open>AList.update\<close>), as \<open>d[k] = v\<close> does.
\<close>

type_synonym byte = "8 word"
type_synonym bytes = "byte list"
type_synonym pystr = "nat list"
type_synonym items = "(string \<times> string) list"
type_synonym dict = "(string \<times> string) list"

text \<open>
  The exceptions that can leave \<open>handle_async_request\<close>: the two that \<open>bytes.decode\<close>
  raises, and whatever the inner transport or \<open>aread\<close> raises, named by its class.
\<close>

datatype error = UnicodeDecodeError | LookupError | Raised string

text \<open>\<open>dict(pairs)\<close> and \<open>{k: v for k, v in pairs}\<close>: the pairs are stored in order.\<close>

definition dict :: "items \<Rightarrow> dict" where
  "dict pairs = fold (\<lambda>(k, v) d. AList.update k v d) pairs []"

text \<open>
  \<open>str.lower()\<close> on code points below 256: the ASCII capitals and the Latin-1 capitals
  (U+00C0 to U+00DE without the multiplication sign U+00D7) move up by 32, every other
  character stays.
\<close>

definition lower_char :: "char \<Rightarrow> char" where
  "lower_char c =
     (let n = (of_char c :: nat)
      in if (65 \<le> n \<and> n \<le> 90) \<or> (192 \<le> n \<and> n \<le> 222 \<and> n \<noteq> 215)
         then char_of (n + 32) else c)"

definition lower :: "string \<Rightarrow> string" where
  "lower s = map lower_char s"

text \<open>
  HTTP header names are ASCII and compare without regard to case. \<open>k\<close> is a
  capitalization of \<open>name\<close> when it is \<open>name\<close> with some of its letters in upper
  case: \<open>Content-Encoding\<close> and \<open>CONTENT-ENCODING\<close> are capitalizations of
  \<open>content-encoding\<close>.
\<close>

definition upper_ascii :: "char \<Rightarrow> char" where
  "upper_ascii c =
     (let n = (of_char c :: nat) in if 97 \<le> n \<and> n \<le> 122 then char_of (n - 32) else c)"

definition capitalization_of :: "string \<Rightarrow> string \<Rightarrow> bool" where
  "capitalization_of k name \<longleftrightarrow> list_all2 (\<lambda>c d. c = d \<or> c = upper_ascii d) k name"

subsection \<open>\<open>bytes.decode\<close>\<close>

text \<open>
  The error handlers the source names: \<open>bytes.decode(encoding)\<close> is strict (the
  default), \<open>bytes.decode(encoding, errors="replace")\<close> puts U+FFFD for what cannot be
  decoded.
\<close>

datatype errors = Strict | Replace

definition continuation :: "nat \<Rightarrow> bool" where
  "continuation b \<longleftrightarrow> 128 \<le> b \<and> b < 192"

text \<open>
  One step of the UTF-8 decoder on the byte \<open>b0\<close> followed by \<open>rest\<close>: the code point
  (or \<open>None\<close> for an ill-formed sequence) and the number of bytes it takes. Overlong
  forms, surrogates and code points above U+10FFFF are ill-formed; an ill-formed
  sequence takes its longest prefix that starts a well-formed one, at least the byte
  \<open>b0\<close>.
\<close>

definition utf8_step :: "nat \<Rightarrow> nat list \<Rightarrow> nat option \<times> nat" where
  "utf8_step b0 rest =
     (if b0 < 128 then (Some b0, 1)
      else if b0 < 194 then (None, 1)
      else if b0 < 224 then
        (case rest of
           [] \<Rightarrow> (None, 1)
         | b1 # _ \<Rightarrow>
             if continuation b1 then (Some ((b0 - 192) * 64 + (b1 - 128)), 2)
             else (None, 1))
      else if b0 < 240 then
        (case rest of
           [] \<Rightarrow> (None, 1)
         | b1 # r1 \<Rightarrow>
             if continuation b1 \<and> (if b0 = 224 then 160 \<le> b1 else True)
                \<and> (if b0 = 237 then b1 < 160 else True)
             then
               (case r1 of
                  [] \<Rightarrow> (None, 2)
                | b2 # _ \<Rightarrow>
                    if continuation b2
                    then (Some ((b0 - 224) * 4096 + (b1 - 128) * 64 + (b2 - 128)), 3)
                    else (None, 2))
             else (None, 1))
      else if b0 < 245 then
        (case rest of
           [] \<Rightarrow> (None, 1)
         | b1 # r1 \<Rightarrow>
             if continuation b1 \<and> (if b0 = 240 then 144 \<le> b1 else True)
                \<and> (if b0 = 244 then b1 < 144 else True)
             then
               (case r1 of
                  [] \<Rightarrow> (None, 2)
                | b2 # r2 \<Rightarrow>
                    if continuation b2
                    then
                      (case r2 of
                         [] \<Rightarrow> (None, 3)
                       | b3 # _ \<Rightarrow>
                           if continuation b3
                           then (Some ((b0 - 240) * 262144 + (b1 - 128) * 4096
                                       + (b2 - 128) * 64 + (b3 - 128)), 4)
                           else (None, 3))
                    else (None, 2))
             else (None, 1))
      else (None, 1))"

text \<open>
  The decoding loop over the bytes (as numbers). In strict mode the first ill-formed
  sequence raises \<open>UnicodeDecodeError\<close>; in replace mode it becomes U+FFFD (65533) and
  decoding goes on behind it.
\<close>

function utf8_loop :: "errors \<Rightarrow> nat list \<Rightarrow> error + pystr" where
  "utf8_loop errs [] = Inr []"
| "utf8_loop errs (b0 # rest) =
     (case utf8_step b0 rest of
        (Some cp, n) \<Rightarrow> map_sum id ((#) cp) (utf8_loop errs (drop (n - 1) rest))
      | (None, n) \<Rightarrow>
          (case errs of
             Strict \<Rightarrow> Inl UnicodeDecodeError
           | Replace \<Rightarrow> map_sum id ((#) 65533) (utf8_loop errs (drop (n - 1) rest))))"
  by pat_completeness auto
termination
  by (relation "measure (\<lambda>(errs, bs). length bs)") auto

definition decode_utf8 :: "errors \<Rightarrow> bytes \<Rightarrow> error + pystr" where
  "decode_utf8 errs bs = utf8_loop errs (map unat bs)"

text \<open>
  \<open>str.encode("utf-8")\<close>, the inverse that says which decoding this is: a code point
  that is a Unicode scalar value (not a surrogate, at most U+10FFFF) takes one to four
  bytes.
\<close>

definition scalar_value :: "nat \<Rightarrow> bool" where
  "scalar_value c \<longleftrightarrow> c < 55296 \<or> (57344 \<le> c \<and> c < 1114112)"

definition encode_code_point :: "nat \<Rightarrow> nat list" where
  "encode_code_point c =
     (if c < 128 then [c]
      else if c < 2048 then [192 + c div 64, 128 + c mod 64]
      else if c < 65536 then [224 + c div 4096, 128 + c div 64 mod 64, 128 + c mod 64]
      else [240 + c div 262144, 128 + c div 4096 mod 64, 128 + c div 64 mod 64,
            128 + c mod 64])"

definition encode_utf8 :: "pystr \<Rightarrow> bytes" where
  "encode_utf8 s = map of_nat (concat (map encode_code_point s))"

text \<open>
  \<open>bs.decode(encoding, errors)\<close>. The name \<open>"utf-8"\<close>, the one the source writes
  out, is the built-in decoder above. Every other name is looked up in \<open>codecs\<close>, the
  interpreter's registry of text encodings, which is a parameter of the model: a name
  it does not know raises \<open>LookupError\<close>, and a codec it knows decides itself what it
  does under each error handler.
\<close>

type_synonym codec = "errors \<Rightarrow> bytes \<Rightarrow> error + pystr"

definition bytes_decode ::
  "(string \<Rightarrow> codec option) \<Rightarrow> bytes \<Rightarrow> string \<Rightarrow> errors \<Rightarrow> error + pystr" where
  "bytes_decode codecs bs enc errs =
     (if enc = ''utf-8'' then decode_utf8 errs bs
      else case codecs enc of None \<Rightarrow> Inl LookupError | Some c \<Rightarrow> c errs bs)"

section \<open>The HTTP objects, as the module reads and builds them\<close>

text \<open>
  \<open>request\<close> is the \<open>httpx.Request\<close> handed to the transport, its body read, as httpx
  has it for a body given as bytes: \<open>headers\<close> is what iterating its header mapping
  yields, \<open>content\<close> is \<open>None\<close> for a request without a body. (A request whose body
  is a stream that was never read has no \<open>content\<close> to give, \<open>request.content\<close>
  raises \<open>RequestNotRead\<close>; such a request is not a value of this record.)
  \<open>response\<close> is the inner transport's response as \<open>handle_async_request\<close> reads
  it: \<open>headers\<close> is \<open>response.headers.items()\<close>, \<open>aread\<close> the outcome of
  \<open>await response.aread()\<close>, \<open>encoding\<close> the value of \<open>response.encoding\<close>.
  \<open>Response\<close> is the response that \<open>httpx.Response(status_code=, headers=, content=,
  request=, extensions=)\<close> builds in lines 54 to 60: \<open>headers\<close> is its header list,
  names as stored.
\<close>

record request =
  url :: string
  headers :: items
  content :: "bytes option"

record 'x response =
  status_code :: nat
  headers :: items
  aread :: "error + bytes"
  encoding :: "string option"
  extensions :: 'x

record 'x Response =
  status_code :: nat
  headers :: dict
  content :: bytes
  request :: request
  extensions :: 'x

text \<open>\<open>str(n)\<close> for a length: the decimal digits.\<close>

function decimal :: "nat \<Rightarrow> string" where
  "decimal n =
     (if n < 10 then [char_of (48 + n)]
      else decimal (n div 10) @ [char_of (48 + n mod 10)])"
  by pat_completeness auto
termination
  by (relation "measure id") auto

declare decimal.simps [simp del]

text \<open>
  The constructor \<open>httpx.Response(...)\<close> called with \<open>content=\<close> a \<open>bytes\<close> object: it
  keeps the status code, the request and the extensions, stores the headers it is
  given, and holds the bytes as the body. A body that is not empty makes it set
  \<open>Content-Length\<close> to the length of the body, by \<open>setdefault\<close>: only when the headers
  given have no header of that name, in whatever capitalization.
\<close>

definition Response_init :: "nat \<Rightarrow> dict \<Rightarrow> bytes \<Rightarrow> request \<Rightarrow> 'x \<Rightarrow> 'x Response" where
  "Response_init status hs body req ext =
     \<lparr>Response.status_code = status,
      Response.headers =
        (if body = [] \<or> list_ex (\<lambda>(k, v). lower k = ''content-length'') hs then hs
         else hs @ [(''Content-Length'', decimal (length body))]),
      Response.content = body,
      Response.request = req,
      Response.extensions = ext\<rparr>"

section \<open>\<open>LoggingTransport\<close>\<close>

record 'i LoggingTransport =
  inner :: 'i
  request_headers :: dict
  request_content :: "pystr option"
  response_headers :: dict
  response_content :: "pystr option"

text \<open>
  \<open>__init__(self, inner=None)\<close>, lines 27 to 32. The first argument stands for the
  transport that \<open>httpx.AsyncHTTPTransport()\<close> builds; it is taken only when no inner
  transport is given.
\<close>

definition LoggingTransport_init :: "'i \<Rightarrow> 'i option \<Rightarrow> 'i LoggingTransport" where
  "LoggingTransport_init default_transport inner' =
     \<lparr>inner = (case inner' of None \<Rightarrow> default_transport | Some t \<Rightarrow> t),
      request_headers = [],
      request_content = None,
      response_headers = [],
      response_content = None\<rparr>"

text \<open>The five \<open>logger.info\<close> calls, each recorded with the value it formats.\<close>

datatype log_record =
    Request_URL string
  | Request_Headers dict
  | Request_Content "pystr option"
  | Response_Headers dict
  | Response_Content "pystr option"

text \<open>
  Line 37: \<open>request.content.decode("utf-8") if request.content else None\<close>. Both
  \<open>None\<close> and the empty \<open>bytes\<close> object are false.
\<close>

definition request_text :: "(string \<Rightarrow> codec option) \<Rightarrow> bytes option \<Rightarrow> error + pystr option" where
  "request_text codecs c =
     (case c of
        None \<Rightarrow> Inr None
      | Some bs \<Rightarrow>
          if bs = [] then Inr None
          else map_sum id Some (bytes_decode codecs bs ''utf-8'' Strict))"

text \<open>\<open>response.encoding or "utf-8"\<close>: \<open>None\<close> and the empty string are false.\<close>

definition or_else :: "string option \<Rightarrow> string \<Rightarrow> string" where
  "or_else x d = (case x of None \<Rightarrow> d | Some s \<Rightarrow> if s = [] then d else s)"

text \<open>
  \<open>handle_async_request(self, request)\<close>, lines 35 to 60. \<open>inner_handle\<close> is the method
  \<open>handle_async_request\<close> of the inner transport: from the inner transport's state and
  a request it gives a response or raises, and leaves the inner transport in a new
  state. The result is what the call returns or raises, with \<open>self\<close> and the log as the
  call leaves them; an exception leaves the assignments made before it in place.
\<close>

definition handle_async_request ::
  "(string \<Rightarrow> codec option) \<Rightarrow> ('i \<Rightarrow> request \<Rightarrow> (error + 'x response) \<times> 'i)
    \<Rightarrow> 'i LoggingTransport \<Rightarrow> log_record list \<Rightarrow> request
    \<Rightarrow> (error + 'x Response) \<times> 'i LoggingTransport \<times> log_record list" where
  "handle_async_request codecs inner_handle self logger req =
     (let self = self\<lparr>request_headers := dict (request.headers req)\<rparr>
      in case request_text codecs (request.content req) of
        Inl exn \<Rightarrow> (Inl exn, self, logger)
      | Inr body \<Rightarrow>
          let self = self\<lparr>request_content := body\<rparr>;
              logger = logger @ [Request_URL (url req),
                                 Request_Headers (request_headers self),
                                 Request_Content (request_content self)];
              (result, inner') = inner_handle (inner self) req;
              self = self\<lparr>inner := inner'\<rparr>
          in case result of
            Inl exn \<Rightarrow> (Inl exn, self, logger)
          | Inr response \<Rightarrow>
              (case aread response of
                 Inl exn \<Rightarrow> (Inl exn, self, logger)
               | Inr raw_response_bytes \<Rightarrow>
                   let self = self\<lparr>response_headers := dict (response.headers response)\<rparr>
                   in case bytes_decode codecs raw_response_bytes
                             (or_else (encoding response) ''utf-8'') Replace of
                     Inl exn \<Rightarrow> (Inl exn, self, logger)
                   | Inr decoded \<Rightarrow>
                       let self = self\<lparr>response_content := Some decoded\<rparr>;
                           logger = logger @ [Response_Headers (response_headers self),
                                              Response_Content (response_content self)];
                           headers_without_encoding =
                             dict (filter (\<lambda>(k, v). lower k \<noteq> ''content-encoding'')
                                     (response.headers response))
                       in (Inr (Response_init (response.status_code response)
                                  headers_without_encoding raw_response_bytes req
                                  (response.extensions response)),
                           self, logger)))"

section \<open>\<open>LoggingAsyncClient\<close> and \<open>async_clients\<close>\<close>











section \<open>Sample exchanges\<close>

text \<open>
  A registry with one more text encoding, ISO-8859-1, which maps every byte to the code
  point of the same number under either handler.
\<close>

definition decode_latin1 :: codec where
  "decode_latin1 errs bs = Inr (map unat bs)"

definition sample_codecs :: "string \<Rightarrow> codec option" where
  "sample_codecs name = (if name = ''iso-8859-1'' then Some decode_latin1 else None)"

text \<open>
  A scripted inner transport: its state is the list of outcomes it still has to give,
  one for each call; with none left the connection fails.
\<close>

fun scripted ::
  "(error + 'x response) list \<Rightarrow> request \<Rightarrow> (error + 'x response) \<times> (error + 'x response) list" where
  "scripted [] req = (Inl (Raised ''ConnectError''), [])"
| "scripted (outcome # later) req = (outcome, later)"

text \<open>A POST with the body \<open>h\<close>, \<open>e\<close> acute (two bytes in UTF-8).\<close>

definition sample_request :: request where
  "sample_request =
     \<lparr>url = ''https://example.test/chat'',
      request.headers = [(''content-type'', ''application/json'')],
      request.content = Some [0x68, 0xC3, 0xA9]\<rparr>"

definition bodyless_request :: request where
  "bodyless_request =
     \<lparr>url = ''https://example.test/models'',
      request.headers = [(''accept'', ''*/*'')],
      request.content = None\<rparr>"

definition empty_request :: request where
  "empty_request =
     \<lparr>url = ''https://example.test/models'',
      request.headers = [(''accept'', ''*/*'')],
      request.content = Some []\<rparr>"

text \<open>Status 200, a gzip marker and one more header, the body \<open>hello\<close>.\<close>

definition sample_response :: "items response" where
  "sample_response =
     \<lparr>response.status_code = 200,
      response.headers = [(''Content-Encoding'', ''gzip''), (''x-id'', ''42'')],
      aread = Inr [0x68, 0x65, 0x6C, 0x6C, 0x6F],
      encoding = None,
      response.extensions = [(''http_version'', ''HTTP/1.1'')]\<rparr>"



definition new_transport :: "(error + items response) list \<Rightarrow> (error + items response) list LoggingTransport" where
  "new_transport script = LoggingTransport_init [] (Some script)"


text \<open>What the sample exchange hands back and leaves captured.\<close>

definition sample_reemitted :: "items Response" where
  "sample_reemitted =
     \<lparr>Response.status_code = 200,
      Response.headers = [(''x-id'', ''42''), (''Content-Length'', ''5'')],
      Response.content = [0x68, 0x65, 0x6C, 0x6C, 0x6F],
      Response.request = sample_request,
      Response.extensions = [(''http_version'', ''HTTP/1.1'')]\<rparr>"

definition sample_captured :: "(error + items response) list LoggingTransport" where
  "sample_captured =
     \<lparr>inner = [],
      request_headers = [(''content-type'', ''application/json'')],
      request_content = Some [104, 233],
      response_headers = [(''Content-Encoding'', ''gzip''), (''x-id'', ''42'')],
      response_content = Some [104, 101, 108, 108, 111]\<rparr>"

text \<open>
  Two dispatches on one transport: the sample exchange, then a request without a body
  for which the scripted transport has no answer left.
\<close>

definition first_exchange ::
  "(error + items Response) \<times> (error + items response) list LoggingTransport \<times> log_record list" where
  "first_exchange =
     handle_async_request sample_codecs scripted (new_transport [Inr sample_response]) []
       sample_request"

definition second_exchange ::
  "(error + items Response) \<times> (error + items response) list LoggingTransport \<times> log_record list" where
  "second_exchange =
     handle_async_request sample_codecs scripted (fst (snd first_exchange))
       (snd (snd first_exchange)) bodyless_request"

text \<open>A transport that keeps the requests it is given, in order, and fails each time.\<close>

definition recording :: "request list \<Rightarrow> request \<Rightarrow> (error + items response) \<times> request list" where
  "recording seen req = (Inl (Raised ''ReadTimeout''), seen @ [req])"



section \<open>Lemmas on the Python values\<close>



text \<open>Decoding what \<open>encode_utf8\<close> wrote gives the string back, under either handler.\<close>

lemma digits3: "(c::nat) = c div 4096 * 4096 + c div 64 mod 64 * 64 + c mod 64"
proof -
  have "c div 64 = c div 64 div 64 * 64 + c div 64 mod 64"
    by simp
  moreover have "c div 64 div 64 = c div 4096"
    by (simp add: div_mult2_eq [symmetric])
  moreover have "c = c div 64 * 64 + c mod 64"
    by simp
  ultimately show ?thesis
    by linarith
qed

lemma digits4:
  "(c::nat) = c div 262144 * 262144 + c div 4096 mod 64 * 4096 + c div 64 mod 64 * 64 + c mod 64"
proof -
  have "c div 4096 = c div 4096 div 64 * 64 + c div 4096 mod 64"
    by simp
  moreover have "c div 4096 div 64 = c div 262144"
    by (simp add: div_mult2_eq [symmetric])
  ultimately have "c div 4096 * 4096 = c div 262144 * 262144 + c div 4096 mod 64 * 4096"
    by linarith
  with digits3 [of c] show ?thesis
    by linarith
qed

lemma utf8_loop_two_bytes:
  assumes "2 \<le> h" "h < 32" "l < 64"
  shows "utf8_loop errs ((192 + h) # (128 + l) # rest)
           = map_sum id ((#) (h * 64 + l)) (utf8_loop errs rest)"
  using assms by (simp add: utf8_step_def continuation_def)

lemma utf8_loop_three_bytes:
  assumes "h < 16" "m < 64" "l < 64" "h = 0 \<Longrightarrow> 32 \<le> m" "h = 13 \<Longrightarrow> m < 32"
  shows "utf8_loop errs ((224 + h) # (128 + m) # (128 + l) # rest)
           = map_sum id ((#) (h * 4096 + m * 64 + l)) (utf8_loop errs rest)"
  using assms by (auto simp: utf8_step_def continuation_def)

lemma utf8_loop_four_bytes:
  assumes "h < 5" "k < 64" "m < 64" "l < 64" "h = 0 \<Longrightarrow> 16 \<le> k" "h = 4 \<Longrightarrow> k < 16"
  shows "utf8_loop errs ((240 + h) # (128 + k) # (128 + m) # (128 + l) # rest)
           = map_sum id ((#) (h * 262144 + k * 4096 + m * 64 + l)) (utf8_loop errs rest)"
  using assms by (auto simp: utf8_step_def continuation_def)

lemma utf8_loop_encode_code_point:
  assumes "scalar_value c"
  shows "utf8_loop errs (encode_code_point c @ rest) = map_sum id ((#) c) (utf8_loop errs rest)"
proof -
  consider "c < 128" | "128 \<le> c" "c < 2048" | "2048 \<le> c" "c < 65536" | "65536 \<le> c"
    by linarith
  then show ?thesis
  proof cases
    case 1
    then show ?thesis
      by (simp add: encode_code_point_def utf8_step_def)
  next
    case 2
    define h l where "h = c div 64" and "l = c mod 64"
    have c: "c = h * 64 + l"
      by (simp add: h_def l_def)
    have "l < 64"
      by (simp add: l_def)
    moreover from 2 c this have "2 \<le> h" "h < 32"
      by linarith+
    ultimately have "utf8_loop errs ((192 + h) # (128 + l) # rest)
                       = map_sum id ((#) (h * 64 + l)) (utf8_loop errs rest)"
      by (intro utf8_loop_two_bytes)
    with 2 show ?thesis
      unfolding encode_code_point_def h_def [symmetric] l_def [symmetric] c [symmetric]
      by simp
  next
    case 3
    define h m l where "h = c div 4096" and "m = c div 64 mod 64" and "l = c mod 64"
    have c: "c = h * 4096 + m * 64 + l"
      unfolding h_def m_def l_def by (rule digits3)
    have lm: "m < 64" "l < 64"
      by (simp_all add: m_def l_def)
    from 3 c lm have "h < 16"
      by linarith
    moreover from 3 c lm have "h = 0 \<Longrightarrow> 32 \<le> m"
      by linarith
    moreover from assms c lm have "h = 13 \<Longrightarrow> m < 32"
      unfolding scalar_value_def by linarith
    ultimately have "utf8_loop errs ((224 + h) # (128 + m) # (128 + l) # rest)
                       = map_sum id ((#) (h * 4096 + m * 64 + l)) (utf8_loop errs rest)"
      using lm by (intro utf8_loop_three_bytes)
    with 3 show ?thesis
      unfolding encode_code_point_def h_def [symmetric] m_def [symmetric] l_def [symmetric]
        c [symmetric]
      by simp
  next
    case 4
    with assms have c_max: "c < 1114112" by (simp add: scalar_value_def)
    define h k m l where "h = c div 262144" and "k = c div 4096 mod 64"
      and "m = c div 64 mod 64" and "l = c mod 64"
    have c: "c = h * 262144 + k * 4096 + m * 64 + l"
      unfolding h_def k_def m_def l_def by (rule digits4)
    have kml: "k < 64" "m < 64" "l < 64"
      by (simp_all add: k_def m_def l_def)
    from c_max c kml have "h < 5"
      by linarith
    moreover from 4 c kml have "h = 0 \<Longrightarrow> 16 \<le> k"
      by linarith
    moreover from c_max c kml have "h = 4 \<Longrightarrow> k < 16"
      by linarith
    ultimately have "utf8_loop errs ((240 + h) # (128 + k) # (128 + m) # (128 + l) # rest)
                       = map_sum id ((#) (h * 262144 + k * 4096 + m * 64 + l))
                           (utf8_loop errs rest)"
      using kml by (intro utf8_loop_four_bytes)
    with 4 show ?thesis
      unfolding encode_code_point_def h_def [symmetric] k_def [symmetric] m_def [symmetric]
        l_def [symmetric] c [symmetric]
      by simp
  qed
qed

lemma utf8_loop_encode:
  "list_all scalar_value s \<Longrightarrow> utf8_loop errs (concat (map encode_code_point s)) = Inr s"
  by (induction s) (simp_all add: utf8_loop_encode_code_point)

lemma encode_code_point_bytes:
  assumes "scalar_value c" and "b \<in> set (encode_code_point c)"
  shows "b < 256"
proof -
  from assms(1) have "c < 1114112"
    by (auto simp: scalar_value_def)
  with digits4 [of c] have h: "c div 262144 < 5"
    by linarith
  have "c mod 64 < 64" "c div 64 mod 64 < 64" "c div 4096 mod 64 < 64"
    by simp_all
  moreover have "c < 2048 \<Longrightarrow> c div 64 < 32" "c < 65536 \<Longrightarrow> c div 4096 < 16"
    by simp_all
  ultimately show ?thesis
    using assms(2) h by (auto simp: encode_code_point_def split: if_splits)
qed

lemma unat_of_nat_bytes:
  "\<forall>b \<in> set xs. b < 256 \<Longrightarrow> map unat (map (of_nat :: nat \<Rightarrow> byte) xs) = xs"
  by (induction xs) (simp_all add: unat_of_nat)

lemma decode_encode_utf8:
  assumes "list_all scalar_value s"
  shows "decode_utf8 errs (encode_utf8 s) = Inr s"
proof -
  from assms have "\<forall>b \<in> set (concat (map encode_code_point s)). b < 256"
    using encode_code_point_bytes by (auto simp: list_all_iff)
  then have "map unat (map (of_nat :: nat \<Rightarrow> byte) (concat (map encode_code_point s)))
               = concat (map encode_code_point s)"
    by (rule unat_of_nat_bytes)
  with assms show ?thesis
    by (simp add: decode_utf8_def encode_utf8_def utf8_loop_encode del: map_map)
qed

lemma lower_char_capital:
  assumes "c = d \<or> c = upper_ascii d" and "lower_char d = d"
  shows "lower_char c = d"
proof (cases "c = d")
  case True
  with assms show ?thesis by simp
next
  case False
  with assms have c: "c = upper_ascii d" by simp
  with False have d: "97 \<le> (of_char d :: nat)" "(of_char d :: nat) \<le> 122"
    and c': "c = char_of (of_char d - 32 :: nat)"
    by (auto simp: upper_ascii_def Let_def split: if_splits)
  from d have n: "(of_char c :: nat) = of_char d - 32"
    by (simp add: c')
  with d have "65 \<le> (of_char c :: nat)" "(of_char c :: nat) \<le> 90"
    and "(of_char c :: nat) + 32 = of_char d"
    by simp_all
  then show ?thesis
    by (simp add: lower_char_def Let_def)
qed

lemma lower_char_origin:
  assumes "lower_char c = d" and "(of_char d :: nat) < 192"
  shows "c = d \<or> c = upper_ascii d"
proof (cases "c = d")
  case True
  then show ?thesis by simp
next
  case False
  let ?n = "of_char c :: nat"
  from False assms(1)
  have rng: "(65 \<le> ?n \<and> ?n \<le> 90) \<or> (192 \<le> ?n \<and> ?n \<le> 222 \<and> ?n \<noteq> 215)"
    and d: "d = char_of (?n + 32)"
    by (auto simp: lower_char_def Let_def split: if_splits)
  from rng have "(of_char d :: nat) = ?n + 32"
    by (auto simp: d)
  with rng assms(2) have "65 \<le> ?n" "?n \<le> 90" and m: "(of_char d :: nat) = ?n + 32"
    by auto
  then have "upper_ascii d = char_of ?n"
    by (simp add: upper_ascii_def Let_def)
  then show ?thesis by simp
qed

lemma lower_eq_iff_capitalization:
  assumes "\<forall>d \<in> set name. lower_char d = d \<and> (of_char d :: nat) < 192"
  shows "lower k = name \<longleftrightarrow> capitalization_of k name"
  using assms
proof (induction k arbitrary: name)
  case Nil
  show ?case by (auto simp: lower_def capitalization_of_def)
next
  case (Cons c k)
  show ?case
  proof (cases name)
    case Nil
    then show ?thesis by (simp add: lower_def capitalization_of_def)
  next
    case (Cons d name')
    with Cons.prems have d: "lower_char d = d" "(of_char d :: nat) < 192"
      and rest: "\<forall>d \<in> set name'. lower_char d = d \<and> (of_char d :: nat) < 192"
      by auto
    from Cons.IH [OF rest] have IH: "lower k = name' \<longleftrightarrow> capitalization_of k name'" .
    have "lower_char c = d \<longleftrightarrow> c = d \<or> c = upper_ascii d"
      using lower_char_capital [of c d] lower_char_origin [of c d] d by blast
    with IH Cons show ?thesis
      by (simp add: lower_def capitalization_of_def)
  qed
qed

lemma lower_content_encoding:
  "lower k = ''content-encoding'' \<longleftrightarrow> capitalization_of k ''content-encoding''"
proof (rule lower_eq_iff_capitalization)
  show "\<forall>d \<in> set ''content-encoding''. lower_char d = d \<and> (of_char d :: nat) < 192"
    by (simp add: lower_char_def)
qed




lemma keys_fold_update:
  "fst ` set (fold (\<lambda>(k, v) d. AList.update k v d) pairs acc)
     = fst ` set pairs \<union> fst ` set acc"
proof (induction pairs arbitrary: acc)
  case Nil
  show ?case by simp
next
  case (Cons p pairs)
  obtain k v where p: "p = (k, v)" by (cases p)
  have "fst ` set (AList.update k v acc) = insert k (fst ` set acc)"
    by (induction acc) auto
  with Cons.IH [of "AList.update k v acc"] show ?case
    by (auto simp: p)
qed

lemma keys_dict: "fst ` set (dict pairs) = fst ` set pairs"
  by (simp add: dict_def keys_fold_update)

section \<open>What a dispatch has done\<close>


lemma handle_async_request_returns:
  assumes "handle_async_request codecs ih self logger req = (Inr out, self', logger')"
  obtains body response inner' raw decoded where
    "request_text codecs (request.content req) = Inr body"
    "ih (inner self) req = (Inr response, inner')"
    "aread response = Inr raw"
    "bytes_decode codecs raw (or_else (encoding response) ''utf-8'') Replace = Inr decoded"
    "out = Response_init (response.status_code response)
             (dict (filter (\<lambda>(k, v). lower k \<noteq> ''content-encoding'')
                      (response.headers response)))
             raw req (response.extensions response)"
    "self' = \<lparr>inner = inner',
              request_headers = dict (request.headers req),
              request_content = body,
              response_headers = dict (response.headers response),
              response_content = Some decoded\<rparr>"
    "logger' = logger @ [Request_URL (url req),
                         Request_Headers (dict (request.headers req)),
                         Request_Content body,
                         Response_Headers (dict (response.headers response)),
                         Response_Content (Some decoded)]"
  using assms
  by (auto simp: handle_async_request_def Let_def split: sum.splits prod.splits)

lemma handle_async_request_dispatch:
  assumes "request_text codecs (request.content req) = Inr body"
    and "ih (inner self) req = (Inr response, inner')"
    and "aread response = Inr raw"
    and "bytes_decode codecs raw (or_else (encoding response) ''utf-8'') Replace = Inr decoded"
  shows "handle_async_request codecs ih self logger req
         = (Inr (Response_init (response.status_code response)
                   (dict (filter (\<lambda>(k, v). lower k \<noteq> ''content-encoding'')
                            (response.headers response)))
                   raw req (response.extensions response)),
            \<lparr>inner = inner',
             request_headers = dict (request.headers req),
             request_content = body,
             response_headers = dict (response.headers response),
             response_content = Some decoded\<rparr>,
            logger @ [Request_URL (url req),
                      Request_Headers (dict (request.headers req)),
                      Request_Content body,
                      Response_Headers (dict (response.headers response)),
                      Response_Content (Some decoded)])"
  using assms by (simp add: handle_async_request_def Let_def)

text \<open>The sample request and the sample responses, evaluated.\<close>

lemma sample_request_text:
  "request_text codecs (request.content sample_request) = Inr (Some [104, 233])"
  by (simp add: request_text_def sample_request_def bytes_decode_def decode_utf8_def
      utf8_step_def continuation_def)

lemma hello_decoded:
  "bytes_decode codecs [0x68, 0x65, 0x6C, 0x6C, 0x6F] ''utf-8'' Replace
   = Inr [104, 101, 108, 108, 111]"
  by (simp add: bytes_decode_def decode_utf8_def utf8_step_def)

lemma decimal_5: "decimal (length [a, b, c, d, e]) = ''5''"
proof -
  have "decimal 5 = ''5''"
    by (simp add: decimal.simps [of 5] char_of_eq_iff)
  moreover have "length [a, b, c, d, e] = 5"
    by simp
  ultimately show ?thesis
    by (simp only:)
qed

text \<open>The sample exchange, run on a new transport.\<close>

lemma sample_dispatch:
  "handle_async_request sample_codecs scripted (new_transport [Inr sample_response]) []
     sample_request
   = (Inr sample_reemitted, sample_captured,
      [Request_URL ''https://example.test/chat'',
       Request_Headers [(''content-type'', ''application/json'')],
       Request_Content (Some [104, 233]),
       Response_Headers [(''Content-Encoding'', ''gzip''), (''x-id'', ''42'')],
       Response_Content (Some [104, 101, 108, 108, 111])])"
proof -
  have inner_gives: "scripted (inner (new_transport [Inr sample_response])) sample_request
                       = (Inr sample_response, [])"
    by (simp add: new_transport_def LoggingTransport_init_def)
  have read: "aread sample_response = Inr [0x68, 0x65, 0x6C, 0x6C, 0x6F]"
    by (simp add: sample_response_def)
  have decoded: "bytes_decode sample_codecs [0x68, 0x65, 0x6C, 0x6C, 0x6F]
                   (or_else (encoding sample_response) ''utf-8'') Replace
                 = Inr [104, 101, 108, 108, 111]"
    by (simp add: sample_response_def or_else_def hello_decoded)
  have "handle_async_request sample_codecs scripted (new_transport [Inr sample_response]) []
          sample_request
        = (Inr (Response_init (response.status_code sample_response)
                  (dict (filter (\<lambda>(k, v). lower k \<noteq> ''content-encoding'')
                           (response.headers sample_response)))
                  [0x68, 0x65, 0x6C, 0x6C, 0x6F] sample_request
                  (response.extensions sample_response)),
           \<lparr>inner = [],
            request_headers = dict (request.headers sample_request),
            request_content = Some [104, 233],
            response_headers = dict (response.headers sample_response),
            response_content = Some [104, 101, 108, 108, 111]\<rparr>,
           [] @ [Request_URL (url sample_request),
                 Request_Headers (dict (request.headers sample_request)),
                 Request_Content (Some [104, 233]),
                 Response_Headers (dict (response.headers sample_response)),
                 Response_Content (Some [104, 101, 108, 108, 111])])"
    by (rule handle_async_request_dispatch
          [where ih = scripted and self = "new_transport [Inr sample_response]",
           OF sample_request_text inner_gives read decoded])
  also have "response.headers sample_response
               = [(''Content-Encoding'', ''gzip''), (''x-id'', ''42'')]"
    by (simp add: sample_response_def)
  finally show ?thesis
    by (simp add: sample_reemitted_def sample_captured_def Response_init_def decimal_5
        sample_request_def sample_response_def dict_def lower_def lower_char_def
        char_of_eq_iff del: list.size length_Cons)
qed

section \<open>The response handed back\<close>

text \<open>
  C1. The response that \<open>handle_async_request\<close> returns has no \<open>content-encoding\<close>
  header, in whatever capitalization the inner transport's response carried the name:
  no capitalization of \<open>content-encoding\<close> is a key of the returned headers.
\<close>

theorem reemitted_response_has_no_content_encoding:
  assumes "handle_async_request codecs ih self logger req = (Inr out, self', logger')"
    and "capitalization_of k ''content-encoding''"
  shows "k \<notin> fst ` set (Response.headers out)"
proof
  assume key: "k \<in> fst ` set (Response.headers out)"
  from assms(1) obtain response inner' raw where
    "ih (inner self) req = (Inr response, inner')" and "aread response = Inr raw"
    and "out = Response_init (response.status_code response)
                 (dict (filter (\<lambda>(k, v). lower k \<noteq> ''content-encoding'')
                          (response.headers response)))
                 raw req (response.extensions response)"
    by (rule handle_async_request_returns)
  with key have "k \<in> fst ` set (dict (filter (\<lambda>(k, v). lower k \<noteq> ''content-encoding'')
                                          (response.headers response)))
                 \<or> k = ''Content-Length''"
    by (auto simp: Response_init_def split: if_splits)
  moreover have "k \<noteq> ''Content-Length''"
  proof
    assume "k = ''Content-Length''"
    with assms(2) have "length ''Content-Length'' = length ''content-encoding''"
      unfolding capitalization_of_def by (auto dest: list_all2_lengthD)
    then show False by simp
  qed
  ultimately have "k \<in> fst ` set (filter (\<lambda>(k, v). lower k \<noteq> ''content-encoding'')
                                      (response.headers response))"
    by (simp add: keys_dict)
  then have "lower k \<noteq> ''content-encoding''"
    by auto
  with assms(2) show False
    by (simp add: lower_content_encoding)
qed

theorem reemitted_response_has_no_content_encoding_witness:
  "capitalization_of ''Content-Encoding'' ''content-encoding''
   \<and> ''Content-Encoding'' \<in> fst ` set (response.headers sample_response)
   \<and> fst (handle_async_request sample_codecs scripted (new_transport [Inr sample_response]) []
            sample_request) = Inr sample_reemitted
   \<and> ''Content-Encoding'' \<notin> fst ` set (Response.headers sample_reemitted)"
proof -
  have cap: "capitalization_of ''Content-Encoding'' ''content-encoding''"
    by code_simp
  have "''Content-Encoding'' \<in> fst ` set (response.headers sample_response)"
    by (simp add: sample_response_def)
  moreover have "fst (handle_async_request sample_codecs scripted
                        (new_transport [Inr sample_response]) [] sample_request)
                   = Inr sample_reemitted"
    by (simp only: sample_dispatch fst_conv)
  ultimately show ?thesis
    using reemitted_response_has_no_content_encoding [OF sample_dispatch cap] cap
    by blast
qed




section \<open>The captured request\<close>

text \<open>
  C3. Decoding never makes the dispatch fail. Not so for the request: a request whose
  body is the one byte FF, which is not UTF-8, makes \<open>handle_async_request\<close> raise
  \<open>UnicodeDecodeError\<close> at line 37, with any inner transport and in any state.
\<close>

theorem undecodable_request_body_raises:
  "fst (handle_async_request codecs ih self logger
          \<lparr>url = u, request.headers = hs, request.content = Some [0xFF]\<rparr>)
   = Inl UnicodeDecodeError"
  by (simp add: handle_async_request_def request_text_def bytes_decode_def decode_utf8_def
      utf8_step_def)

text \<open>
  C4. For a request with a body that is not empty, \<open>request_content\<close> after the
  dispatch is the UTF-8 decoding of the bytes of the body: whenever the bytes decode,
  the decoding is what the dispatch leaves captured, whether the inner transport then
  answers or fails; and a dispatch that returns has decoded them.
\<close>

theorem request_content_is_utf8_decoding:
  assumes "request.content req = Some bs" and "bs \<noteq> []"
  shows "(\<forall>s. decode_utf8 Strict bs = Inr s \<longrightarrow>
            request_content (fst (snd (handle_async_request codecs ih self logger req)))
            = Some s)
       \<and> ((\<exists>out. fst (handle_async_request codecs ih self logger req) = Inr out) \<longrightarrow>
            (\<exists>s. decode_utf8 Strict bs = Inr s))"
proof (cases "decode_utf8 Strict bs")
  case (Inl exn)
  with assms show ?thesis
    by (simp add: handle_async_request_def request_text_def bytes_decode_def Let_def)
next
  case (Inr s)
  with assms show ?thesis
    by (simp add: handle_async_request_def request_text_def bytes_decode_def Let_def
        split: sum.splits prod.splits)
qed

theorem request_content_is_utf8_decoding_witness:
  "request.content sample_request = Some [0x68, 0xC3, 0xA9]
   \<and> decode_utf8 Strict [0x68, 0xC3, 0xA9] = Inr [104, 233]
   \<and> fst (scripted (inner (new_transport [])) sample_request) = Inl (Raised ''ConnectError'')
   \<and> request_content (fst (snd (handle_async_request sample_codecs scripted (new_transport [])
                                   [] sample_request)))
       = Some [104, 233]"
proof -
  have body: "request.content sample_request = Some [0x68, 0xC3, 0xA9]"
    by (simp add: sample_request_def)
  have decoded: "decode_utf8 Strict [0x68, 0xC3, 0xA9] = Inr [104, 233]"
    by (simp add: decode_utf8_def utf8_step_def continuation_def)
  from request_content_is_utf8_decoding
         [OF body, of sample_codecs scripted "new_transport []" "[]"] decoded
  have "request_content (fst (snd (handle_async_request sample_codecs scripted
                                     (new_transport []) [] sample_request)))
          = Some [104, 233]"
    by simp
  with body decoded show ?thesis
    by (simp add: new_transport_def LoggingTransport_init_def)
qed

text \<open>
  C5. After a dispatch of a request without a body, whether it returned or raised,
  \<open>request_content\<close> is \<open>None\<close>.
\<close>

theorem request_without_body_gives_None:
  assumes "request.content req = None"
  shows "request_content (fst (snd (handle_async_request codecs ih self logger req))) = None"
  using assms
  by (simp add: handle_async_request_def request_text_def Let_def
      split: sum.splits prod.splits)

theorem request_without_body_gives_None_witness:
  "request.content bodyless_request = None
   \<and> request_content (fst (snd (handle_async_request sample_codecs scripted
        (new_transport [Inr sample_response]) [] bodyless_request))) = None"
proof -
  have none: "request.content bodyless_request = None"
    by (simp add: bodyless_request_def)
  from request_without_body_gives_None
         [OF none, of sample_codecs scripted "new_transport [Inr sample_response]" "[]"] none
  show ?thesis
    by simp
qed

text \<open>
  C10. A request whose body is there but has no bytes is captured like a request
  without a body: \<open>request_content\<close> is \<open>None\<close> after the dispatch, not the empty
  string.
\<close>

theorem request_with_empty_body_gives_None:
  assumes "request.content req = Some []"
  shows "request_content (fst (snd (handle_async_request codecs ih self logger req))) = None
       \<and> request_content (fst (snd (handle_async_request codecs ih self logger req))) \<noteq> Some []"
  using assms
  by (simp add: handle_async_request_def request_text_def Let_def
      split: sum.splits prod.splits)

theorem request_with_empty_body_gives_None_witness:
  "request.content empty_request = Some []
   \<and> request_content (fst (snd (handle_async_request sample_codecs scripted
        (new_transport [Inr sample_response]) [] empty_request))) = None"
proof -
  have empty: "request.content empty_request = Some []"
    by (simp add: empty_request_def)
  from request_with_empty_body_gives_None
         [OF empty, of sample_codecs scripted "new_transport [Inr sample_response]" "[]"] empty
  show ?thesis
    by simp
qed

section \<open>The captured response\<close>




section \<open>The captured state over several calls\<close>

text \<open>
  C7, as the code has it. After a call that returns, the captured fields hold values of
  that call only: two transports with the same inner transport, whatever their four
  fields held before, are left in the same state by the same call, which returns the
  same response.
\<close>

theorem returned_call_overwrites_captured_state:
  assumes "handle_async_request codecs ih self logger req = (Inr out, self', logger')"
    and "inner other = inner self"
  shows "\<exists>logger''. handle_async_request codecs ih other logger2 req = (Inr out, self', logger'')"
proof -
  from assms(1) obtain body response inner' raw decoded where
    "request_text codecs (request.content req) = Inr body"
    "ih (inner self) req = (Inr response, inner')"
    "aread response = Inr raw"
    "bytes_decode codecs raw (or_else (encoding response) ''utf-8'') Replace = Inr decoded"
    "out = Response_init (response.status_code response)
             (dict (filter (\<lambda>(k, v). lower k \<noteq> ''content-encoding'')
                      (response.headers response)))
             raw req (response.extensions response)"
    "self' = \<lparr>inner = inner',
              request_headers = dict (request.headers req),
              request_content = body,
              response_headers = dict (response.headers response),
              response_content = Some decoded\<rparr>"
    by (rule handle_async_request_returns)
  with assms(2) show ?thesis
    by (simp add: handle_async_request_def Let_def)
qed

theorem returned_call_overwrites_captured_state_witness:
  "inner ((new_transport [Inr sample_response])
            \<lparr>request_content := Some [111, 108, 100], response_content := Some [111, 108, 100]\<rparr>)
     = inner (new_transport [Inr sample_response])
   \<and> (\<exists>logger''.
         handle_async_request sample_codecs scripted
           ((new_transport [Inr sample_response])
              \<lparr>request_content := Some [111, 108, 100], response_content := Some [111, 108, 100]\<rparr>)
           [] sample_request
         = (Inr sample_reemitted, sample_captured, logger''))
   \<and> request_content sample_captured = Some [104, 233]
   \<and> response_content sample_captured = Some [104, 101, 108, 108, 111]"
proof -
  have same: "inner ((new_transport [Inr sample_response])
                  \<lparr>request_content := Some [111, 108, 100],
                   response_content := Some [111, 108, 100]\<rparr>)
                = inner (new_transport [Inr sample_response])"
    by simp
  from returned_call_overwrites_captured_state [OF sample_dispatch same, of "[]"] same
  show ?thesis
    by (simp add: sample_captured_def)
qed

text \<open>
  C7 as stated says that each call overwrites all four fields. A call in which the
  inner transport raises leaves the response fields of the exchange before it: after
  the second of the two sample dispatches the request fields are those of the second
  request and the response fields those of the first response.
\<close>

theorem failed_call_keeps_earlier_response:
  "fst second_exchange = Inl (Raised ''ConnectError'')
   \<and> request_headers (fst (snd second_exchange)) = [(''accept'', ''*/*'')]
   \<and> request_content (fst (snd second_exchange)) = None
   \<and> response_headers (fst (snd second_exchange))
       = [(''Content-Encoding'', ''gzip''), (''x-id'', ''42'')]
   \<and> response_content (fst (snd second_exchange)) = Some [104, 101, 108, 108, 111]"
proof -
  have first: "first_exchange
          = (Inr sample_reemitted, sample_captured,
             [Request_URL ''https://example.test/chat'',
              Request_Headers [(''content-type'', ''application/json'')],
              Request_Content (Some [104, 233]),
              Response_Headers [(''Content-Encoding'', ''gzip''), (''x-id'', ''42'')],
              Response_Content (Some [104, 101, 108, 108, 111])])"
    unfolding first_exchange_def by (rule sample_dispatch)
  show ?thesis
    unfolding second_exchange_def first
    by (simp add: handle_async_request_def bodyless_request_def request_text_def dict_def
        sample_captured_def)
qed

section \<open>Delegation to the inner transport\<close>

text \<open>
  When the dispatch reaches the delegation of line 43 (line 37 returned), the inner
  transport is called once, with the request as it was given: it is left in the state
  in which one call of its own \<open>handle_async_request\<close> on that request leaves it. If
  that call raises, or reading the body of its response does, the dispatch raises the
  same exception, and nothing but the two request fields of \<open>self\<close> has changed.
\<close>

lemma delegation_when_reached:
  assumes "request_text codecs (request.content req) = Inr body"
    and "ih (inner self) req = (result, inner')"
    and "handle_async_request codecs ih self logger req = (res, self', logger')"
  shows "inner self' = inner'
       \<and> (\<forall>e. result = Inl e \<or> (\<exists>response. result = Inr response \<and> aread response = Inl e) \<longrightarrow>
             res = Inl e
           \<and> self' = self\<lparr>request_headers := dict (request.headers req),
                           request_content := body,
                           inner := inner'\<rparr>)"
  using assms
  by (auto simp: handle_async_request_def Let_def split: sum.splits)

lemma delegation_seen_by_recording_transport:
  "handle_async_request sample_codecs recording (LoggingTransport_init [] None) []
     sample_request
   = (Inl (Raised ''ReadTimeout''),
      \<lparr>inner = [sample_request],
       request_headers = [(''content-type'', ''application/json'')],
       request_content = Some [104, 233],
       response_headers = [],
       response_content = None\<rparr>,
      [Request_URL ''https://example.test/chat'',
       Request_Headers [(''content-type'', ''application/json'')],
       Request_Content (Some [104, 233])])"
  by (simp add: handle_async_request_def sample_request_text recording_def
      LoggingTransport_init_def)
     (simp add: sample_request_def dict_def)

text \<open>
  C8. The request is handed to the inner transport unchanged. Not every request is: a
  request whose body is the one byte FF is never handed to the inner transport. Line 37
  raises before the delegation of line 43, so a transport that keeps the requests it is
  given has none after the dispatch (one call of it would have left the request), and
  the caller gets a \<open>UnicodeDecodeError\<close> that no inner transport raised.
\<close>

theorem undecodable_request_is_not_delegated:
  "fst (handle_async_request codecs recording (LoggingTransport_init [] None) logger
          \<lparr>url = u, request.headers = hs, request.content = Some [0xFF]\<rparr>)
     = Inl UnicodeDecodeError
   \<and> inner (fst (snd (handle_async_request codecs recording (LoggingTransport_init [] None)
                         logger \<lparr>url = u, request.headers = hs, request.content = Some [0xFF]\<rparr>)))
       = []
   \<and> snd (recording [] \<lparr>url = u, request.headers = hs, request.content = Some [0xFF]\<rparr>)
       = [\<lparr>url = u, request.headers = hs, request.content = Some [0xFF]\<rparr>]"
  by (simp add: handle_async_request_def request_text_def bytes_decode_def decode_utf8_def
      utf8_step_def recording_def LoggingTransport_init_def)

section \<open>The pair of clients\<close>




end
